theory Spec2Isabelle
  imports Main
begin

section \<open>The updater route of orbis-ship\<close>

text \<open>
  The route module (\<^verbatim>\<open>src/unnamed/part_006\<close>) keeps three module-level variables (\<open>isUpdaterRunning\<close>,
  \<open>checkInterval\<close>, \<open>lastUpdateInfo\<close>) and talks to the outside through
  \<open>fetch\<close>, the file system, child processes, the console and timers. The model
  passes the module variables as a record, takes every answer of the outside from an
  environment record, and returns what the code did to the outside as a list of effects,
  in the order the code performs them.
\<close>

subsection \<open>JavaScript values read from JSON\<close>

text \<open>
  A property of a parsed JSON document. \<open>JUndefined\<close> is an absent property,
  \<open>JOther\<close> an array or an object. JSON numbers are used by the code only through
  their truthiness, so an integer stands for them.
\<close>

datatype jsval = JUndefined | JNull | JBool bool | JNum int | JStr string | JOther

fun truthy :: "jsval \<Rightarrow> bool" where
  "truthy JUndefined = False"
| "truthy JNull = False"
| "truthy (JBool b) = b"
| "truthy (JNum n) = (n \<noteq> 0)"
| "truthy (JStr s) = (s \<noteq> [])"
| "truthy JOther = True"

text \<open>The exceptions the code can meet; all of them are caught by a \<open>catch (error)\<close>.\<close>

datatype exn = FetchRejected | HttpError nat | JsonSyntaxError | TypeError
  | NoZipAsset | NoExtractedDir | FsError | CommandFailed

subsection \<open>The regular expression of the release name\<close>

text \<open>
  \<^verbatim>\<open>/\(v?([0-9]+\.[0-9]+\.[0-9]+(?:\.[0-9]+)?)\)/\<close>
  A matcher maps the text at the current position to the texts that remain after each
  way of matching, in the order a backtracking engine tries them (greedy first).
\<close>

type_synonym matcher = "string \<Rightarrow> string list"

definition is_digit :: "char \<Rightarrow> bool" where
  "is_digit c = (c \<in> set ''0123456789'')"

definition rx_char :: "char \<Rightarrow> matcher" where
  "rx_char c s = (case s of [] \<Rightarrow> [] | x # xs \<Rightarrow> if x = c then [xs] else [])"

fun rx_digits :: matcher where
  "rx_digits [] = []"
| "rx_digits (c # cs) = (if is_digit c then rx_digits cs @ [cs] else [])"

definition rx_opt :: "matcher \<Rightarrow> matcher" where
  "rx_opt m s = m s @ [s]"

definition rx_seq :: "matcher \<Rightarrow> matcher \<Rightarrow> matcher" where
  "rx_seq m1 m2 s = concat (map m2 (m1 s))"

text \<open>The capture group: \<^verbatim>\<open>[0-9]+\.[0-9]+\.[0-9]+(?:\.[0-9]+)?\<close>.\<close>

definition rx_version :: matcher where
  "rx_version =
     rx_seq rx_digits (rx_seq (rx_char CHR ''.'') (rx_seq rx_digits
       (rx_seq (rx_char CHR ''.'') (rx_seq rx_digits
         (rx_opt (rx_seq (rx_char CHR ''.'') rx_digits))))))"

text \<open>
  The whole expression tried at one position: the result is the text of group 1 in the
  first way of matching that succeeds.
\<close>

definition rx_exec_at :: "string \<Rightarrow> string option" where
  "rx_exec_at s =
     (case concat (map (\<lambda>s1. concat (map (\<lambda>r. map (\<lambda>_. take (length s1 - length r) s1)
                                                   (rx_char CHR '')'' r))
                                         (rx_version s1)))
                       (rx_seq (rx_char CHR ''('') (rx_opt (rx_char CHR ''v'')) s)) of
        [] \<Rightarrow> None
      | g # _ \<Rightarrow> Some g)"

text \<open>\<open>String.prototype.match\<close> without the \<open>g\<close> flag: the leftmost position that matches.\<close>

fun name_match :: "string \<Rightarrow> string option" where
  "name_match [] = rx_exec_at []"
| "name_match (c # cs) =
     (case rx_exec_at (c # cs) of Some g \<Rightarrow> Some g | None \<Rightarrow> name_match cs)"

text \<open>\<^verbatim>\<open>tag_name.replace(/^v/, '')\<close>\<close>

definition strip_v :: "string \<Rightarrow> string" where
  "strip_v t = (case t of [] \<Rightarrow> [] | c # cs \<Rightarrow> if c = CHR ''v'' then cs else t)"

subsection \<open>The release feed and the environment\<close>

record asset =
  asset_name :: jsval
  browser_download_url :: string

text \<open>
  \<open>data.assets\<close>: absent or falsy, an array, or a truthy value that is no array
  (which has no \<open>find\<close>).
\<close>

datatype assets_val = AssetsFalsy | AssetsArray "asset list" | AssetsNoArray

record release =
  name :: jsval
  tag_name :: jsval
  assets :: assets_val

text \<open>
  What \<open>response.json()\<close> gives: a rejection, \<open>null\<close>, a falsy value other than
  \<open>null\<close> (\<open>false\<close>, \<open>0\<close> or the empty string, whose properties all read as
  \<open>undefined\<close>), or a truthy value with its properties (a truthy value that is no object
  reads every property as \<open>undefined\<close>).
\<close>

datatype json_body = Malformed | DataNull | DataFalsy | Data release

definition no_properties :: release where
  "no_properties = \<lparr> name = JUndefined, tag_name = JUndefined, assets = AssetsFalsy \<rparr>"

record response =
  status :: nat
  body :: json_body

definition ok :: "response \<Rightarrow> bool" where
  "ok r = (200 \<le> status r \<and> status r \<le> 299)"

datatype fetch_result = Rejected | Resolved response

text \<open>
  \<open>package.json\<close>: unreadable (the read or the parse throws, or the document is
  \<open>null\<close>), or a document with its \<open>version\<close> property.
\<close>

datatype pkg_read = PkgUnreadable | PkgJson jsval

datatype command = ExpandArchive | Robocopy string

datatype effect =
    ConsoleLog string
  | ConsoleError string
  | Fetch string
  | MkdirTemp
  | WriteZip
  | Exec command
  | RmTemp
  | SetTimeoutExit nat
  | ClearInterval
  | SetInterval nat

text \<open>
  The answers of the outside during one run of a handler: the two \<open>fetch\<close> calls of a
  check, the read of \<open>package.json\<close>, the clock, and for the update procedure the state
  of the temporary directory, the download, and whether each file operation and each
  child process succeeds. \<open>entries\<close> is the listing of the temporary directory after the
  extraction, each name with whether it is a directory, or \<open>None\<close> when reading it throws.
\<close>

record env =
  probe :: fetch_result
  feed :: fetch_result
  pkg :: pkg_read
  now :: string
  tempDirExists :: bool
  mkdirOk :: bool
  download :: fetch_result
  writeOk :: bool
  expandOk :: bool
  entries :: "(string \<times> bool) list option"
  robocopyOk :: bool
  rmOk :: bool

definition PROBE_URL :: string where
  "PROBE_URL = ''https://www.google.com''"

definition GITHUB_API :: string where
  "GITHUB_API = ''https://api.github.com/repos/mehtabshadan/orbis-ship/releases/latest''"

subsection \<open>Module state\<close>

record UpdateInfo =
  updateAvailable :: bool
  localVersion :: jsval
  latestVersion :: "string option"
  lastCheck :: string
  releaseName :: jsval

text \<open>\<open>checkInterval\<close> is a timer handle or \<open>null\<close>; the model keeps whether it is set.\<close>

record updater_state =
  isUpdaterRunning :: bool
  checkInterval :: bool
  lastUpdateInfo :: UpdateInfo

subsection \<open>isInternetAvailable, getLocalVersion\<close>

definition isInternetAvailable :: "env \<Rightarrow> effect list \<times> bool" where
  "isInternetAvailable e =
     (case probe e of
        Rejected \<Rightarrow>
          ([Fetch PROBE_URL, ConsoleLog ''[updater] Internet connectivity check failed:''], False)
      | Resolved r \<Rightarrow> ([Fetch PROBE_URL], ok r))"

definition getLocalVersion :: "env \<Rightarrow> effect list \<times> jsval" where
  "getLocalVersion e =
     (case pkg e of
        PkgUnreadable \<Rightarrow> ([ConsoleError ''[updater] Failed to read package.json:''], JNull)
      | PkgJson v \<Rightarrow> ([], if truthy v then v else JNull))"

subsection \<open>checkForUpdates\<close>

text \<open>Lines 150 to 161: the version of the release name, else of the tag.\<close>

definition version_of_name :: "jsval \<Rightarrow> exn + string option" where
  "version_of_name n =
     (if truthy n then (case n of JStr s \<Rightarrow> Inr (name_match s) | _ \<Rightarrow> Inl TypeError)
      else Inr None)"

definition falsy_version :: "string option \<Rightarrow> bool" where
  "falsy_version v = (case v of None \<Rightarrow> True | Some s \<Rightarrow> s = [])"

definition extractLatestVersion :: "release \<Rightarrow> exn + string option" where
  "extractLatestVersion d =
     (case version_of_name (name d) of
        Inl x \<Rightarrow> Inl x
      | Inr v \<Rightarrow>
          if falsy_version v \<and> truthy (tag_name d) then
            (case tag_name d of JStr t \<Rightarrow> Inr (Some (strip_v t)) | _ \<Rightarrow> Inl TypeError)
          else Inr v)"

text \<open>
  Lines 146 to 188, after \<open>data\<close> has been read: \<open>t2\<close> is what was done so far and
  \<open>d\<close> holds the properties of \<open>data\<close>. The result is the effects, the module state,
  and the exception if one was thrown.
\<close>

definition checkForUpdates_data ::
  "env \<Rightarrow> updater_state \<Rightarrow> effect list \<Rightarrow> release \<Rightarrow> effect list \<times> updater_state \<times> exn option" where
  "checkForUpdates_data e s t2 d =
     (let (tl, local) = getLocalVersion e; t3 = t2 @ tl in
      case extractLatestVersion d of
        Inl x \<Rightarrow> (t3, s, Some x)
      | Inr latest \<Rightarrow>
          let t4 = t3 @ [ConsoleLog ''[updater] Release name:'',
                         ConsoleLog ''[updater] Extracted version from name:'',
                         ConsoleLog ''[updater] Local version:''];
              info = \<lparr> updateAvailable = False, localVersion = local,
                       latestVersion = latest, lastCheck = now e,
                       releaseName = name d \<rparr>;
              s1 = s\<lparr> lastUpdateInfo := info \<rparr>;
              t5 = t4 @ [ConsoleLog ''[updater] Could not extract version from release name:'']
          in (case latest of
                None \<Rightarrow> (t5, s1, None)
              | Some v \<Rightarrow>
                  if v = [] then (t5, s1, None)
                  else if local \<noteq> JStr v then
                    (t4 @ [ConsoleLog ''[updater] Update available:''],
                     s1\<lparr> lastUpdateInfo := info\<lparr> updateAvailable := True \<rparr> \<rparr>, None)
                  else
                    (t4 @ [ConsoleLog ''[updater] Application is up-to-date''], s1, None)))"

text \<open>
  The body of the \<open>try\<close> block: the effects so far, the module state, and the
  exception if one was thrown.
\<close>

definition checkForUpdates_try :: "env \<Rightarrow> updater_state \<Rightarrow> effect list \<times> updater_state \<times> exn option" where
  "checkForUpdates_try e s =
     (let (t0, hasInternet) = isInternetAvailable e;
          t1 = ConsoleLog ''[updater] Checking for updates...'' # t0
      in if \<not> hasInternet then
           (t1 @ [ConsoleLog ''[updater] No internet connection available, skipping update check''],
            s, None)
         else
           let t2 = t1 @ [Fetch GITHUB_API] in
           case feed e of
             Rejected \<Rightarrow> (t2, s, Some FetchRejected)
           | Resolved r \<Rightarrow>
               if \<not> ok r then (t2, s, Some (HttpError (status r)))
               else
                 (case body r of
                    Malformed \<Rightarrow> (t2, s, Some JsonSyntaxError)
                  | DataNull \<Rightarrow> (t2 @ fst (getLocalVersion e), s, Some TypeError)
                  | DataFalsy \<Rightarrow> checkForUpdates_data e s t2 no_properties
                  | Data d \<Rightarrow> checkForUpdates_data e s t2 d))"

text \<open>The function with its \<open>catch\<close>: the exception is logged and not rethrown.\<close>

definition checkForUpdates :: "env \<Rightarrow> updater_state \<Rightarrow> effect list \<times> updater_state \<times> exn option" where
  "checkForUpdates e s =
     (case checkForUpdates_try e s of
        (t, s', Some x) \<Rightarrow> (t @ [ConsoleError ''[updater] Update check failed:''], s', None)
      | (t, s', None) \<Rightarrow> (t, s', None))"

subsection \<open>runCommand, downloadAndExtractUpdate, performUpdate\<close>

text \<open>
  \<open>runCommand\<close> rejects when the child process fails. The echo of the captured
  output to the console is left out of the effects.
\<close>

definition runCommand :: "command \<Rightarrow> bool \<Rightarrow> effect list \<times> exn option" where
  "runCommand cmd succeeds =
     (if succeeds then ([ConsoleLog ''[updater] Running command:'', Exec cmd], None)
      else ([ConsoleLog ''[updater] Running command:'', Exec cmd,
             ConsoleError ''[updater] Command failed:''], Some CommandFailed))"

text \<open>The inner \<open>try\<close> block of \<open>downloadAndExtractUpdate\<close>.\<close>

definition download_try :: "string \<Rightarrow> env \<Rightarrow> effect list \<times> exn option" where
  "download_try url e =
     (let t0 = [ConsoleLog ''[updater] Downloading update from:'', Fetch url] in
      case download e of
        Rejected \<Rightarrow> (t0, Some FetchRejected)
      | Resolved r \<Rightarrow>
          if \<not> ok r then (t0, Some (HttpError (status r)))
          else if \<not> writeOk e then (t0, Some FsError)
          else
            (case runCommand ExpandArchive (expandOk e) of
               (tc, Some x) \<Rightarrow> (t0 @ [WriteZip] @ tc, Some x)
             | (tc, None) \<Rightarrow>
                 (t0 @ [WriteZip] @ tc @
                    [ConsoleLog ''[updater] Update downloaded and extracted successfully''],
                  None)))"

definition downloadAndExtractUpdate :: "string \<Rightarrow> env \<Rightarrow> effect list \<times> exn option" where
  "downloadAndExtractUpdate url e =
     (if \<not> tempDirExists e \<and> \<not> mkdirOk e then ([], Some FsError)
      else
        let tm = (if tempDirExists e then [] else [MkdirTemp]) in
        case download_try url e of
          (t, Some x) \<Rightarrow>
            (tm @ t @ [ConsoleError ''[updater] Failed to download/extract update:''], Some x)
        | (t, None) \<Rightarrow> (tm @ t, None))"

text \<open>
  \<^verbatim>\<open>assets.find(asset => asset.name.endsWith('.zip'))\<close>: the callback throws on an
  element whose \<open>name\<close> is no string.
\<close>

definition endsWith_zip :: "string \<Rightarrow> bool" where
  "endsWith_zip s = (4 \<le> length s \<and> drop (length s - 4) s = ''.zip'')"

fun find_zip :: "asset list \<Rightarrow> exn + asset option" where
  "find_zip [] = Inr None"
| "find_zip (a # as) =
     (case asset_name a of
        JStr s \<Rightarrow> if endsWith_zip s then Inr (Some a) else find_zip as
      | _ \<Rightarrow> Inl TypeError)"

text \<open>\<^verbatim>\<open>readdirSync(tempDir).find(name => statSync(...).isDirectory())\<close>\<close>

fun find_dir :: "(string \<times> bool) list \<Rightarrow> string option" where
  "find_dir [] = None"
| "find_dir ((n, d) # es) = (if d then Some n else find_dir es)"

text \<open>
  \<open>performUpdate\<close> runs to its first \<open>await\<close> as soon as it is called
  (\<open>performUpdate_begin\<close>); the rest of the \<open>try\<close> block runs when the feed answers.
\<close>

definition performUpdate_begin :: "effect list" where
  "performUpdate_begin = [ConsoleLog ''[updater] Starting update process...'', Fetch GITHUB_API]"

definition performUpdate_rest :: "env \<Rightarrow> effect list \<times> exn option" where
  "performUpdate_rest e =
     (case feed e of
        Rejected \<Rightarrow> ([], Some FetchRejected)
      | Resolved r \<Rightarrow>
          if \<not> ok r then ([], Some (HttpError (status r)))
          else
            (case body r of
               Malformed \<Rightarrow> ([], Some JsonSyntaxError)
             | DataNull \<Rightarrow> ([], Some TypeError)
             | DataFalsy \<Rightarrow> ([], Some NoZipAsset)
             | Data d \<Rightarrow>
                 (case assets d of
                    AssetsNoArray \<Rightarrow> ([], Some TypeError)
                  | _ \<Rightarrow>
                      (case find_zip (case assets d of AssetsArray as \<Rightarrow> as | _ \<Rightarrow> []) of
                         Inl x \<Rightarrow> ([], Some x)
                       | Inr None \<Rightarrow> ([], Some NoZipAsset)
                       | Inr (Some zipAsset) \<Rightarrow>
                           (case downloadAndExtractUpdate (browser_download_url zipAsset) e of
                              (t1, Some x) \<Rightarrow> (t1, Some x)
                            | (t1, None) \<Rightarrow>
                                (case entries e of
                                   None \<Rightarrow> (t1, Some FsError)
                                 | Some es \<Rightarrow>
                                     (case find_dir es of
                                        None \<Rightarrow> (t1, Some NoExtractedDir)
                                      | Some extractedDir \<Rightarrow>
                                          (case runCommand (Robocopy extractedDir) (robocopyOk e) of
                                             (t2, Some x) \<Rightarrow> (t1 @ t2, Some x)
                                           | (t2, None) \<Rightarrow>
                                               if \<not> rmOk e then (t1 @ t2, Some FsError)
                                               else
                                                 (t1 @ t2 @
                                                    [RmTemp,
                                                     ConsoleLog ''[updater] Update completed successfully!'',
                                                     ConsoleLog ''[updater] Restarting application...'',
                                                     SetTimeoutExit 2000],
                                                  None)))))))))"

text \<open>The function with its \<open>catch\<close>: \<open>true\<close> when nothing was thrown, else \<open>false\<close>.\<close>

definition performUpdate :: "env \<Rightarrow> effect list \<times> bool" where
  "performUpdate e =
     (case performUpdate_rest e of
        (t, Some x) \<Rightarrow>
          (performUpdate_begin @ t @ [ConsoleError ''[updater] Update process failed:''], False)
      | (t, None) \<Rightarrow> (performUpdate_begin @ t, True))"

subsection \<open>The background timer\<close>

definition UPDATE_CHECK_INTERVAL :: nat where
  "UPDATE_CHECK_INTERVAL = 60 * 60 * 1000"

text \<open>
  The timer calls \<open>checkForUpdates\<close> itself: \<^verbatim>\<open>setInterval(checkForUpdates, ...)\<close>.
\<close>

definition scheduled_tick :: "env \<Rightarrow> updater_state \<Rightarrow> effect list \<times> updater_state \<times> exn option" where
  "scheduled_tick e s = checkForUpdates e s"

text \<open>
  \<open>checkForUpdates\<close> runs to its first \<open>await\<close> as soon as it is called: the log
  line and the \<open>fetch\<close> of the probe.
\<close>

definition checkForUpdates_begin :: "effect list" where
  "checkForUpdates_begin = [ConsoleLog ''[updater] Checking for updates...'', Fetch PROBE_URL]"

text \<open>
  \<open>startBackgroundUpdater\<close> calls \<open>checkForUpdates\<close> without awaiting it: the check
  runs to its first \<open>await\<close>, the function goes on to set the timer and to log, and the
  rest of the check runs when the probe has answered. The result is the effects up to the
  return of the function, the effects of the rest of the check, and the module state once
  that check has finished.
\<close>

definition startBackgroundUpdater ::
  "env \<Rightarrow> updater_state \<Rightarrow> effect list \<times> effect list \<times> updater_state" where
  "startBackgroundUpdater e s =
     (let tc = (if checkInterval s then [ClearInterval] else []);
          (t, s', _) = checkForUpdates e s;
          n = length checkForUpdates_begin
      in (tc @ take n t @ [SetInterval UPDATE_CHECK_INTERVAL,
                           ConsoleLog ''[updater] Background updater started - checking every hour''],
          drop n t,
          s'\<lparr> checkInterval := True \<rparr>))"

definition stopBackgroundUpdater :: "updater_state \<Rightarrow> effect list \<times> updater_state" where
  "stopBackgroundUpdater s =
     ((if checkInterval s then [ClearInterval] else []) @
        [ConsoleLog ''[updater] Background updater stopped''],
      s\<lparr> checkInterval := False \<rparr>)"

subsection \<open>The route handlers\<close>

text \<open>The JSON envelope of a \<open>POST\<close> answer, with the HTTP status beside it.\<close>

record reply =
  http_status :: nat
  success :: bool
  message :: "string option"
  error :: "string option"
  isRunning :: "bool option"
  updateInfo :: "UpdateInfo option"
  updatePerformed :: "bool option"

definition envelope :: "nat \<Rightarrow> bool \<Rightarrow> reply" where
  "envelope st su = \<lparr> http_status = st, success = su, message = None, error = None,
                       isRunning = None, updateInfo = None, updatePerformed = None \<rparr>"

text \<open>
  A handler is given with all its effects, the module state it leaves and its reply. For
  \<open>start\<close> the reply is sent when \<open>startBackgroundUpdater\<close> has returned, before the
  rest of the check that it started.
\<close>

text \<open>
  The request body: \<open>request.json()\<close> rejects, gives \<open>null\<close> (whose destructuring
  throws), or gives a value whose \<open>action\<close> property is read.
\<close>

datatype request = BodyUnparsable | BodyNull | BodyAction jsval

definition POST :: "request \<Rightarrow> env \<Rightarrow> updater_state \<Rightarrow> effect list \<times> updater_state \<times> reply" where
  "POST rq e s =
     (case rq of
        BodyAction a \<Rightarrow>
          if a = JStr ''start'' then
            (let (t, later, s') = startBackgroundUpdater e (s\<lparr> isUpdaterRunning := True \<rparr>)
             in (t @ later, s',
                 (envelope 200 True)\<lparr> message := Some ''Background auto-updater started'',
                                        isRunning := Some True \<rparr>))
          else if a = JStr ''stop'' then
            (let (t, s') = stopBackgroundUpdater (s\<lparr> isUpdaterRunning := False \<rparr>)
             in (t, s', (envelope 200 True)\<lparr> message := Some ''Background auto-updater stopped'',
                                               isRunning := Some False \<rparr>))
          else if a = JStr ''check'' then
            (case checkForUpdates e s of
               (t, s', Some x) \<Rightarrow>
                 (t @ [ConsoleError ''Updater action error:''], s',
                  (envelope 500 False)\<lparr> error := Some ''Updater action failed:'' \<rparr>)
             | (t, s', None) \<Rightarrow>
                 (t, s', (envelope 200 True)\<lparr> message := Some ''Update check completed'',
                                               updateInfo := Some (lastUpdateInfo s') \<rparr>))
          else if a = JStr ''update'' then
            (let (t, updateResult) = performUpdate e
             in (t, s, (envelope 200 True)\<lparr>
                          message := Some (if updateResult
                                           then ''Update initiated - application will restart''
                                           else ''Update failed''),
                          updatePerformed := Some updateResult \<rparr>))
          else
            ([], s, (envelope 400 False)\<lparr>
                       error := Some ''Invalid action. Supported actions: start, stop, check, update'' \<rparr>)
      | _ \<Rightarrow>
          ([ConsoleError ''Updater action error:''], s,
           (envelope 500 False)\<lparr> error := Some ''Updater action failed:'' \<rparr>))"

text \<open>The data of a \<open>GET\<close> answer (the handler always answers 200 with \<open>success: true\<close>).\<close>

record status_data =
  st_isRunning :: bool
  st_localVersion :: jsval
  st_repository :: string
  st_lastCheck :: string
  st_updateAvailable :: bool
  st_latestVersion :: "string option"
  st_releaseName :: jsval
  st_message :: string

definition GET :: "env \<Rightarrow> updater_state \<Rightarrow> effect list \<times> status_data" where
  "GET e s =
     (let (t, local) = getLocalVersion e in
      (t, \<lparr> st_isRunning = isUpdaterRunning s,
            st_localVersion = local,
            st_repository = ''mehtabshadan/orbis-ship'',
            st_lastCheck = lastCheck (lastUpdateInfo s),
            st_updateAvailable = updateAvailable (lastUpdateInfo s),
            st_latestVersion = latestVersion (lastUpdateInfo s),
            st_releaseName = releaseName (lastUpdateInfo s),
            st_message = (if isUpdaterRunning s then ''Auto-updater is running''
                          else ''Auto-updater is stopped'') \<rparr>))"

subsection \<open>Requests that overlap\<close>

text \<open>
  The handlers are \<open>async\<close>: while one request waits at an \<open>await\<close>, the next one is
  served. The server is followed through two kinds of events. An \<open>update\<close> request
  arrives: the handler \<open>POST\<close> is called in the module state of that moment and runs as
  far as the first \<open>await\<close> of \<open>performUpdate\<close>, that of the feed call; what the handler
  does after that, and its reply, wait in \<open>pending\<close>. A pending handler goes on to its
  end: its remaining effects happen and its reply is sent. The environment of a request is
  what the outside will answer to that handler.
\<close>

record server =
  module_state :: updater_state
  pending :: "(effect list \<times> reply) list"
  console_and_io :: "effect list"
  replies :: "reply list"

datatype event = UpdateRequest env | RunCompletes nat

definition server_step :: "server \<Rightarrow> event \<Rightarrow> server" where
  "server_step sv ev =
     (case ev of
        UpdateRequest e \<Rightarrow>
          (let (t, s', r) = POST (BodyAction (JStr ''update'')) e (module_state sv);
               n = length performUpdate_begin
           in sv\<lparr> module_state := s',
                  pending := pending sv @ [(drop n t, r)],
                  console_and_io := console_and_io sv @ take n t \<rparr>)
      | RunCompletes i \<Rightarrow>
          if i < length (pending sv) then
            (let (t, r) = pending sv ! i
             in sv\<lparr> pending := take i (pending sv) @ drop (Suc i) (pending sv),
                    console_and_io := console_and_io sv @ t,
                    replies := replies sv @ [r] \<rparr>)
          else sv)"

definition server_run :: "server \<Rightarrow> event list \<Rightarrow> server" where
  "server_run sv evs = foldl server_step sv evs"

text \<open>The handlers that have been called and have not replied yet.\<close>

definition runs_in_flight :: "server \<Rightarrow> nat" where
  "runs_in_flight sv = length (pending sv)"

text \<open>The module variables as they are declared, and the call made when the module loads.\<close>

definition initial_state :: "string \<Rightarrow> updater_state" where
  "initial_state t =
     \<lparr> isUpdaterRunning = False, checkInterval = False,
       lastUpdateInfo = \<lparr> updateAvailable = False, localVersion = JNull,
                          latestVersion = None, lastCheck = t, releaseName = JUndefined \<rparr> \<rparr>"

definition initializeAutoUpdater :: "env \<Rightarrow> updater_state \<Rightarrow> effect list \<times> updater_state" where
  "initializeAutoUpdater e s =
     (if \<not> isUpdaterRunning s then
        (let (t, later, s') = startBackgroundUpdater e (s\<lparr> isUpdaterRunning := True \<rparr>)
         in (t @ [ConsoleLog ''[updater] Auto-updater initialized and started automatically''] @ later,
             s'))
      else ([], s))"

definition initial_server :: "string \<Rightarrow> server" where
  "initial_server t =
     \<lparr> module_state = initial_state t, pending = [], console_and_io = [], replies = [] \<rparr>"

section \<open>The source-control updater (class NextJSUpdater)\<close>











section \<open>Observations and sample environments\<close>

definition hasInternet :: "env \<Rightarrow> bool" where
  "hasInternet e = snd (isInternetAvailable e)"

text \<open>What a check leaves in \<open>lastUpdateInfo\<close>, which is what the \<open>check\<close> action reports.\<close>

definition check_info :: "env \<Rightarrow> updater_state \<Rightarrow> UpdateInfo" where
  "check_info e s = lastUpdateInfo (fst (snd (checkForUpdates e s)))"

definition feed_calls :: "effect list \<Rightarrow> nat" where
  "feed_calls t = length (filter (\<lambda>x. x = Fetch GITHUB_API) t)"

definition probe_up :: fetch_result where
  "probe_up = Resolved \<lparr> status = 200, body = Malformed \<rparr>"

definition sample_assets :: assets_val where
  "sample_assets =
     AssetsArray [\<lparr> asset_name = JStr ''orbis-ship.zip'',
                    browser_download_url = ''https://example.invalid/orbis-ship.zip'' \<rparr>]"

text \<open>
  An environment in which everything succeeds: the feed answers 200 with the given release
  name and tag and one ZIP asset, \<open>package.json\<close> reads as given.
\<close>

definition sample_env :: "jsval \<Rightarrow> jsval \<Rightarrow> pkg_read \<Rightarrow> env" where
  "sample_env title tag p =
     \<lparr> probe = probe_up,
       feed = Resolved \<lparr> status = 200,
                          body = Data \<lparr> name = title, tag_name = tag, assets = sample_assets \<rparr> \<rparr>,
       pkg = p,
       now = ''2025-01-01T00:00:00.000Z'',
       tempDirExists = False,
       mkdirOk = True,
       download = Resolved \<lparr> status = 200, body = Malformed \<rparr>,
       writeOk = True,
       expandOk = True,
       entries = Some [(''update.zip'', False), (''orbis-ship'', True)],
       robocopyOk = True,
       rmOk = True \<rparr>"


definition scenario1_env :: env where
  "scenario1_env = sample_env (JStr ''Release (v1.2.1)'') (JStr ''v1.2.1'') (PkgJson (JStr ''1.2.0''))"

definition scenario2_env :: env where
  "scenario2_env = sample_env (JStr ''Latest release'') (JStr ''v1.2.0'') (PkgJson (JStr ''1.2.0''))"

definition offline_env :: env where
  "offline_env = scenario1_env\<lparr> probe := Rejected \<rparr>"

definition rollback_env :: env where
  "rollback_env = sample_env (JStr ''Rollback (v1.0.0)'') (JStr ''v1.0.0'') (PkgJson (JStr ''2.0.0''))"

definition empty_tag_env :: env where
  "empty_tag_env = sample_env (JStr ''Release'') (JStr ''v'') (PkgJson (JStr ''1.0.0''))"

definition tag_only_env :: env where
  "tag_only_env = sample_env (JStr ''Release'') (JStr ''v9.9.9'') (PkgJson (JStr ''1.0.0''))"

definition no_version_env :: env where
  "no_version_env = sample_env (JStr ''Release'') JUndefined (PkgJson (JStr ''1.0.0''))"

definition unreadable_pkg_env :: env where
  "unreadable_pkg_env = sample_env (JStr ''Release (v1.2.1)'') (JStr ''v1.2.1'') PkgUnreadable"


definition no_zip_env :: env where
  "no_zip_env =
     scenario1_env\<lparr> feed := Resolved \<lparr> status = 200,
                                        body = Data \<lparr> name = JStr ''Release (v1.2.1)'',
                                                      tag_name = JStr ''v1.2.1'',
                                                      assets = AssetsArray [] \<rparr> \<rparr> \<rparr>"


text \<open>The release of the feed has no asset whose name ends in \<open>.zip\<close>.\<close>

definition no_zip_asset :: "env \<Rightarrow> bool" where
  "no_zip_asset e =
     (case feed e of
        Rejected \<Rightarrow> False
      | Resolved r \<Rightarrow>
          (case body r of
             Data d \<Rightarrow> (case assets d of
                          AssetsFalsy \<Rightarrow> True
                        | AssetsArray as \<Rightarrow> find_zip as = Inr None
                        | AssetsNoArray \<Rightarrow> False)
           | DataFalsy \<Rightarrow> True
           | _ \<Rightarrow> False))"


text \<open>The download of the asset failed: rejected, or answered outside 200..299.\<close>

definition download_failed :: "env \<Rightarrow> bool" where
  "download_failed e = (case download e of Rejected \<Rightarrow> True | Resolved r \<Rightarrow> \<not> ok r)"

text \<open>
  The pattern as the specification writes it, \<open>(vMAJOR.MINOR.PATCH[.BUILD])\<close>, with the
  \<open>v\<close> not optional; to be compared with \<open>name_match\<close>, which follows the expression
  of the code.
\<close>

definition spec_exec_at :: "string \<Rightarrow> string option" where
  "spec_exec_at s =
     (case concat (map (\<lambda>s1. concat (map (\<lambda>r. map (\<lambda>_. take (length s1 - length r) s1)
                                                   (rx_char CHR '')'' r))
                                         (rx_version s1)))
                       (rx_seq (rx_char CHR ''('') (rx_char CHR ''v'') s)) of
        [] \<Rightarrow> None
      | g # _ \<Rightarrow> Some g)"

fun spec_name_match :: "string \<Rightarrow> string option" where
  "spec_name_match [] = spec_exec_at []"
| "spec_name_match (c # cs) =
     (case spec_exec_at (c # cs) of Some g \<Rightarrow> Some g | None \<Rightarrow> spec_name_match cs)"

definition no_v_env :: env where
  "no_v_env = sample_env (JStr ''Release (1.2.3)'') (JStr ''v9.9.9'') (PkgJson (JStr ''1.2.0''))"

text \<open>A text of one or more decimal digits.\<close>

definition digit_run :: "string \<Rightarrow> bool" where
  "digit_run a = (a \<noteq> [] \<and> list_all is_digit a)"

section \<open>Facts shared by the proofs\<close>

lemma checkForUpdates_offline:
  "\<not> hasInternet e \<Longrightarrow>
   checkForUpdates e s =
     (ConsoleLog ''[updater] Checking for updates...'' # fst (isInternetAvailable e) @
        [ConsoleLog ''[updater] No internet connection available, skipping update check''], s, None)"
  by (simp add: checkForUpdates_def checkForUpdates_try_def checkForUpdates_data_def hasInternet_def Let_def case_prod_beta)

lemma probe_effects:
  "set (fst (isInternetAvailable e)) \<subseteq>
     {Fetch PROBE_URL, ConsoleLog ''[updater] Internet connectivity check failed:''}"
  by (auto simp: isInternetAvailable_def split: fetch_result.splits)

lemma urls_differ: "PROBE_URL \<noteq> GITHUB_API"
  by (simp add: PROBE_URL_def GITHUB_API_def)

lemma no_feed_in_probe: "Fetch GITHUB_API \<notin> set (fst (isInternetAvailable e))"
  using probe_effects[of e] urls_differ by auto


lemma feed_calls_append: "feed_calls (xs @ ys) = feed_calls xs + feed_calls ys"
  by (simp add: feed_calls_def)


lemma checkForUpdates_no_exception: "snd (snd (checkForUpdates e s)) = None"
  by (simp add: checkForUpdates_def split: prod.splits option.splits)


lemma checkForUpdates_fresh:
  assumes "hasInternet e" "feed e = Resolved r" "ok r" "body r = Data d"
    and "extractLatestVersion d = Inr latest"
  shows "check_info e s =
           \<lparr> updateAvailable =
               (\<not> falsy_version latest \<and> Some (snd (getLocalVersion e)) \<noteq> map_option JStr latest),
             localVersion = snd (getLocalVersion e), latestVersion = latest,
             lastCheck = now e, releaseName = name d \<rparr>"
  using assms
  by (auto simp: check_info_def checkForUpdates_def checkForUpdates_try_def checkForUpdates_data_def hasInternet_def
      falsy_version_def Let_def case_prod_beta split: option.splits)

lemma POST_check:
  "POST (BodyAction (JStr ''check'')) e s =
     (fst (checkForUpdates e s), fst (snd (checkForUpdates e s)),
      (envelope 200 True)\<lparr> message := Some ''Update check completed'',
                            updateInfo := Some (check_info e s) \<rparr>)"
  by (auto simp: POST_def check_info_def checkForUpdates_def split: prod.splits option.splits)

lemma POST_update:
  "POST (BodyAction (JStr ''update'')) e s =
     (fst (performUpdate e), s,
      (envelope 200 True)\<lparr>
         message := Some (if snd (performUpdate e)
                          then ''Update initiated - application will restart''
                          else ''Update failed''),
         updatePerformed := Some (snd (performUpdate e)) \<rparr>)"
  by (simp add: POST_def case_prod_beta)

lemma sample_online: "hasInternet (sample_env title tag p)"
  by (simp add: hasInternet_def isInternetAvailable_def sample_env_def probe_up_def ok_def)

lemma sample_probe: "fst (isInternetAvailable (sample_env title tag p)) = [Fetch PROBE_URL]"
  by (simp add: isInternetAvailable_def sample_env_def probe_up_def)

lemma sample_feed:
  "feed (sample_env title tag p) =
     Resolved \<lparr> status = 200, body = Data \<lparr> name = title, tag_name = tag, assets = sample_assets \<rparr> \<rparr>"
  by (simp add: sample_env_def)

lemma ok_200: "ok \<lparr> status = 200, body = b \<rparr>"
  by (simp add: ok_def)

lemma name_match_Release: "name_match ''Release'' = None"
  by (simp add: rx_exec_at_def rx_seq_def rx_char_def rx_opt_def)

lemma sample_pkg: "snd (getLocalVersion (sample_env title tag (PkgJson (JStr (c # cs))))) = JStr (c # cs)"
  by (simp add: getLocalVersion_def sample_env_def)

lemma check_info_sample:
  assumes "extractLatestVersion \<lparr> name = title, tag_name = tag, assets = sample_assets \<rparr> = Inr latest"
  shows "check_info (sample_env title tag p) s =
           \<lparr> updateAvailable =
               (\<not> falsy_version latest \<and>
                Some (snd (getLocalVersion (sample_env title tag p))) \<noteq> map_option JStr latest),
             localVersion = snd (getLocalVersion (sample_env title tag p)), latestVersion = latest,
             lastCheck = now (sample_env title tag p), releaseName = title \<rparr>"
  using checkForUpdates_fresh [OF sample_online sample_feed ok_200 _ assms] by simp

lemma extract_Release_tag:
  "extractLatestVersion \<lparr> name = JStr ''Release'', tag_name = JStr (c # cs), assets = a \<rparr>
     = Inr (Some (strip_v (c # cs)))"
  by (simp add: extractLatestVersion_def version_of_name_def falsy_version_def
      name_match_Release del: name_match.simps)

lemma extract_Release_no_tag:
  "extractLatestVersion \<lparr> name = JStr ''Release'', tag_name = JUndefined, assets = a \<rparr> = Inr None"
  by (simp add: extractLatestVersion_def version_of_name_def falsy_version_def
      name_match_Release del: name_match.simps)

lemma name_match_scenario1: "name_match ''Release (v1.2.1)'' = Some ''1.2.1''"
  by (simp add: rx_exec_at_def rx_seq_def rx_char_def rx_opt_def rx_version_def is_digit_def)

lemma name_match_rollback: "name_match ''Rollback (v1.0.0)'' = Some ''1.0.0''"
  by (simp add: rx_exec_at_def rx_seq_def rx_char_def rx_opt_def rx_version_def is_digit_def)

lemma name_match_scenario2: "name_match ''Latest release'' = None"
  by (simp add: rx_exec_at_def rx_seq_def rx_char_def rx_opt_def)

lemma extract_scenario1:
  "extractLatestVersion \<lparr> name = JStr ''Release (v1.2.1)'', tag_name = t, assets = a \<rparr>
     = Inr (Some ''1.2.1'')"
  by (simp add: extractLatestVersion_def version_of_name_def falsy_version_def
      name_match_scenario1 del: name_match.simps)

lemma extract_rollback:
  "extractLatestVersion \<lparr> name = JStr ''Rollback (v1.0.0)'', tag_name = t, assets = a \<rparr>
     = Inr (Some ''1.0.0'')"
  by (simp add: extractLatestVersion_def version_of_name_def falsy_version_def
      name_match_rollback del: name_match.simps)

lemma extract_scenario2:
  "extractLatestVersion \<lparr> name = JStr ''Latest release'', tag_name = JStr ''v1.2.0'', assets = a \<rparr>
     = Inr (Some ''1.2.0'')"
  by (simp add: extractLatestVersion_def version_of_name_def falsy_version_def strip_v_def
      name_match_scenario2 del: name_match.simps)

subsection \<open>The regular expression\<close>

lemma rx_digits_shorter: "r \<in> set (rx_digits s) \<Longrightarrow> length r < length s"
  by (induction s) (auto split: if_splits)

lemma rx_char_shorter: "r \<in> set (rx_char c s) \<Longrightarrow> length r < length s"
  by (auto simp: rx_char_def split: list.splits if_splits)

lemma rx_version_shorter: "r \<in> set (rx_version s) \<Longrightarrow> length r < length s"
  by (fastforce simp: rx_version_def rx_seq_def rx_opt_def
      dest!: rx_digits_shorter rx_char_shorter)

lemma rx_exec_at_nonempty: "rx_exec_at s = Some g \<Longrightarrow> g \<noteq> []"
proof -
  assume a: "rx_exec_at s = Some g"
  let ?gs = "concat (map (\<lambda>s1. concat (map (\<lambda>r. map (\<lambda>_. take (length s1 - length r) s1)
                                                   (rx_char CHR '')'' r))
                                         (rx_version s1)))
                       (rx_seq (rx_char CHR ''('') (rx_opt (rx_char CHR ''v'')) s))"
  from a obtain rest where "?gs = g # rest"
    by (auto simp: rx_exec_at_def split: list.splits)
  then have "g \<in> set ?gs"
    by simp
  then obtain s1 r where r: "r \<in> set (rx_version s1)" and g: "g = take (length s1 - length r) s1"
    by auto
  from rx_version_shorter [OF r] have "0 < length s1 - length r" and "s1 \<noteq> []"
    by auto
  then show "g \<noteq> []"
    by (simp add: g)
qed

lemma name_match_nonempty: "name_match s = Some g \<Longrightarrow> g \<noteq> []"
  by (induction s) (auto dest: rx_exec_at_nonempty split: option.splits)

lemma rx_digits_run:
  "a \<noteq> [] \<Longrightarrow> list_all is_digit a \<Longrightarrow> rx_digits r = [] \<Longrightarrow> \<exists>ys. rx_digits (a @ r) = r # ys"
proof (induction a)
  case Nil
  then show ?case by simp
next
  case (Cons x a)
  show ?case
  proof (cases "a = []")
    case True
    with Cons.prems show ?thesis by simp
  next
    case False
    with Cons obtain ys where "rx_digits (a @ r) = r # ys" by auto
    with Cons.prems show ?thesis by simp
  qed
qed

lemma rx_digits_stop: "\<not> is_digit c \<Longrightarrow> rx_digits (c # s) = []"
  by simp

lemma rx_seq_char: "rx_seq (rx_char c) m (c # s) = m s"
  by (simp add: rx_seq_def rx_char_def)

lemma rx_seq_head: "m1 s = r # ys \<Longrightarrow> m2 r = z # zs \<Longrightarrow> \<exists>ws. rx_seq m1 m2 s = z # ws"
  by (simp add: rx_seq_def)

lemma not_digit_dot: "\<not> is_digit CHR ''.''" and not_digit_close: "\<not> is_digit CHR '')''"
  and not_digit_v: "is_digit c \<Longrightarrow> c \<noteq> CHR ''v''"
  by (auto simp: is_digit_def)

lemma rx_version_head:
  assumes "digit_run a" and "digit_run b" and "digit_run c"
    and "ext = [] \<or> (\<exists>d. digit_run d \<and> ext = CHR ''.'' # d)"
  shows "\<exists>ys. rx_version (a @ CHR ''.'' # b @ CHR ''.'' # c @ ext @ CHR '')'' # post)
               = (CHR '')'' # post) # ys"
proof -
  let ?close = "CHR '')'' # post"
  let ?opt = "rx_opt (rx_seq (rx_char CHR ''.'') rx_digits)"
  have o: "\<exists>ys. ?opt (ext @ ?close) = ?close # ys"
  proof (cases "ext = []")
    case True
    then show ?thesis by (simp add: rx_opt_def rx_seq_def rx_char_def)
  next
    case False
    with assms(4) obtain d where d: "digit_run d" "ext = CHR ''.'' # d" by auto
    from d(1) obtain ys where "rx_digits (d @ ?close) = ?close # ys"
      using rx_digits_run [of d ?close] by (auto simp: digit_run_def not_digit_close)
    then show ?thesis
      by (simp add: d(2) rx_opt_def rx_seq_char)
  qed
  have stop: "rx_digits (ext @ ?close) = []"
    using assms(4) by (auto simp: not_digit_dot not_digit_close)
  from assms(3) stop obtain y3 where "rx_digits (c @ ext @ ?close) = (ext @ ?close) # y3"
    using rx_digits_run [of c "ext @ ?close"] by (auto simp: digit_run_def)
  with o obtain w3 where w3: "rx_seq rx_digits ?opt (c @ ext @ ?close) = ?close # w3"
    using rx_seq_head [of rx_digits "c @ ext @ ?close" "ext @ ?close" _ ?opt ?close] by auto
  let ?m3 = "rx_seq (rx_char CHR ''.'') (rx_seq rx_digits ?opt)"
  have m3: "?m3 (CHR ''.'' # c @ ext @ ?close) = ?close # w3"
    by (simp add: rx_seq_char w3)
  from assms(2) obtain y2 where
    "rx_digits (b @ CHR ''.'' # c @ ext @ ?close) = (CHR ''.'' # c @ ext @ ?close) # y2"
    using rx_digits_run [of b "CHR ''.'' # c @ ext @ ?close"]
    by (auto simp: digit_run_def not_digit_dot)
  with m3 obtain w2 where w2: "rx_seq rx_digits ?m3 (b @ CHR ''.'' # c @ ext @ ?close) = ?close # w2"
    using rx_seq_head [of rx_digits "b @ CHR ''.'' # c @ ext @ ?close" _ _ ?m3 ?close] by auto
  let ?m2 = "rx_seq (rx_char CHR ''.'') (rx_seq rx_digits ?m3)"
  have m2: "?m2 (CHR ''.'' # b @ CHR ''.'' # c @ ext @ ?close) = ?close # w2"
    by (simp add: rx_seq_char w2)
  from assms(1) obtain y1 where
    "rx_digits (a @ CHR ''.'' # b @ CHR ''.'' # c @ ext @ ?close)
       = (CHR ''.'' # b @ CHR ''.'' # c @ ext @ ?close) # y1"
    using rx_digits_run [of a "CHR ''.'' # b @ CHR ''.'' # c @ ext @ ?close"]
    by (auto simp: digit_run_def not_digit_dot)
  with m2 obtain w1 where
    "rx_seq rx_digits ?m2 (a @ CHR ''.'' # b @ CHR ''.'' # c @ ext @ ?close) = ?close # w1"
    using rx_seq_head [of rx_digits "a @ CHR ''.'' # b @ CHR ''.'' # c @ ext @ ?close" _ _ ?m2 ?close]
    by auto
  then show ?thesis
    by (auto simp: rx_version_def)
qed

lemma rx_exec_at_token:
  assumes "digit_run a" and "digit_run b" and "digit_run c"
    and "ext = [] \<or> (\<exists>d. digit_run d \<and> ext = CHR ''.'' # d)"
    and "vopt = [] \<or> vopt = [CHR ''v'']"
  shows "rx_exec_at (CHR ''('' # vopt @ a @ CHR ''.'' # b @ CHR ''.'' # c @ ext @ CHR '')'' # post)
           = Some (a @ CHR ''.'' # b @ CHR ''.'' # c @ ext)"
proof -
  let ?V = "a @ CHR ''.'' # b @ CHR ''.'' # c @ ext"
  let ?s1 = "?V @ CHR '')'' # post"
  from rx_version_head [OF assms(1-4), of post] obtain ys where
    v: "rx_version ?s1 = (CHR '')'' # post) # ys" by auto
  from assms(1) obtain x a' where a: "a = x # a'" "is_digit x"
    by (cases a) (auto simp: digit_run_def)
  have "\<exists>zs. rx_seq (rx_char CHR ''('') (rx_opt (rx_char CHR ''v'')) (CHR ''('' # vopt @ ?s1) = ?s1 # zs"
    using assms(5) a not_digit_v [OF a(2)]
    by (auto simp: rx_seq_char rx_opt_def rx_char_def)
  then obtain zs where
    "rx_seq (rx_char CHR ''('') (rx_opt (rx_char CHR ''v'')) (CHR ''('' # vopt @ ?s1) = ?s1 # zs" ..
  then show ?thesis
    using v by (simp add: rx_exec_at_def rx_char_def)
qed

lemma rx_exec_at_miss: "c \<noteq> CHR ''('' \<Longrightarrow> rx_exec_at (c # s) = None"
  by (simp add: rx_exec_at_def rx_seq_def rx_char_def)

lemma name_match_token:
  assumes "digit_run a" and "digit_run b" and "digit_run c"
    and "ext = [] \<or> (\<exists>d. digit_run d \<and> ext = CHR ''.'' # d)"
    and "vopt = [] \<or> vopt = [CHR ''v'']"
    and "CHR ''('' \<notin> set pre"
  shows "name_match (pre @ CHR ''('' # vopt @ a @ CHR ''.'' # b @ CHR ''.'' # c @ ext @ CHR '')'' # post)
           = Some (a @ CHR ''.'' # b @ CHR ''.'' # c @ ext)"
  using assms(6)
proof (induction pre)
  case Nil
  show ?case
    using rx_exec_at_token [OF assms(1-5), of post] by simp
next
  case (Cons x pre)
  then have "x \<noteq> CHR ''(''" and "CHR ''('' \<notin> set pre"
    by auto
  with Cons.IH show ?case
    by (simp add: rx_exec_at_miss)
qed

lemma name_match_no_v: "name_match ''Release (1.2.3)'' = Some ''1.2.3''"
  by (simp add: rx_exec_at_def rx_seq_def rx_char_def rx_opt_def rx_version_def is_digit_def)

lemma spec_name_match_no_v: "spec_name_match ''Release (1.2.3)'' = None"
  by (simp add: spec_exec_at_def rx_seq_def rx_char_def)

lemma spec_name_match_scenario1: "spec_name_match ''Release (v1.2.1)'' = Some ''1.2.1''"
  by (simp add: spec_exec_at_def rx_seq_def rx_char_def rx_opt_def rx_version_def is_digit_def)

lemma extract_no_v:
  "extractLatestVersion \<lparr> name = JStr ''Release (1.2.3)'', tag_name = t, assets = a \<rparr>
     = Inr (Some ''1.2.3'')"
  by (simp add: extractLatestVersion_def version_of_name_def falsy_version_def
      name_match_no_v del: name_match.simps)

lemma extract_from_name:
  assumes "name d = JStr title" and "name_match title = Some v"
  shows "extractLatestVersion d = Inr (Some v)"
proof -
  have "v \<noteq> []"
    using assms(2) by (rule name_match_nonempty)
  moreover have "title \<noteq> []"
    using assms(2) by (auto simp: rx_exec_at_def rx_seq_def rx_char_def)
  ultimately show ?thesis
    using assms by (simp add: extractLatestVersion_def version_of_name_def falsy_version_def)
qed

lemma extract_from_tag:
  assumes "name d = JStr title" and "name_match title = None"
    and "tag_name d = JStr t" and "t \<noteq> []"
  shows "extractLatestVersion d = Inr (Some (strip_v t))"
  using assms by (simp add: extractLatestVersion_def version_of_name_def falsy_version_def)

subsection \<open>The update procedure\<close>


lemma performUpdate_success:
  assumes "snd (performUpdate e)"
  shows "\<not> no_zip_asset e \<and> \<not> download_failed e \<and> expandOk e \<and> robocopyOk e \<and> rmOk e"
  using assms
  by (auto simp: performUpdate_def performUpdate_rest_def downloadAndExtractUpdate_def download_try_def
      runCommand_def no_zip_asset_def download_failed_def Let_def
      split: prod.splits option.splits fetch_result.splits json_body.splits assets_val.splits
        sum.splits if_splits)


lemma performUpdate_scenario1:
  "performUpdate scenario1_env =
     ([ConsoleLog ''[updater] Starting update process...'', Fetch GITHUB_API,
       MkdirTemp, ConsoleLog ''[updater] Downloading update from:'',
       Fetch ''https://example.invalid/orbis-ship.zip'', WriteZip,
       ConsoleLog ''[updater] Running command:'', Exec ExpandArchive,
       ConsoleLog ''[updater] Update downloaded and extracted successfully'',
       ConsoleLog ''[updater] Running command:'', Exec (Robocopy ''orbis-ship''), RmTemp,
       ConsoleLog ''[updater] Update completed successfully!'',
       ConsoleLog ''[updater] Restarting application...'', SetTimeoutExit 2000], True)"
  by (simp add: performUpdate_def performUpdate_rest_def downloadAndExtractUpdate_def download_try_def
      runCommand_def Let_def performUpdate_begin_def scenario1_env_def sample_env_def sample_assets_def
      ok_def endsWith_zip_def)

lemma performUpdate_no_zip:
  "performUpdate no_zip_env =
     ([ConsoleLog ''[updater] Starting update process...'', Fetch GITHUB_API,
       ConsoleError ''[updater] Update process failed:''], False)"
  by (simp add: performUpdate_def performUpdate_rest_def performUpdate_begin_def no_zip_env_def ok_def)

lemma performUpdate_begin_take:
  "take (length performUpdate_begin) (fst (performUpdate e)) = performUpdate_begin"
  by (simp add: performUpdate_def split: prod.splits option.splits)









lemma server_step_request:
  "server_step sv (UpdateRequest e) =
     sv\<lparr> module_state := module_state sv,
         pending := pending sv @
           [(drop (length performUpdate_begin) (fst (performUpdate e)),
             \<lparr> http_status = 200, success = True,
               message = Some (if snd (performUpdate e)
                               then ''Update initiated - application will restart''
                               else ''Update failed''),
               error = None, isRunning = None, updateInfo = None,
               updatePerformed = Some (snd (performUpdate e)) \<rparr>)],
         console_and_io := console_and_io sv @ performUpdate_begin \<rparr>"
  by (simp add: server_step_def POST_update envelope_def performUpdate_begin_take)

lemma server_step_completes:
  "i < length (pending sv) \<Longrightarrow>
   server_step sv (RunCompletes i) =
     sv\<lparr> pending := take i (pending sv) @ drop (Suc i) (pending sv),
         console_and_io := console_and_io sv @ fst (pending sv ! i),
         replies := replies sv @ [snd (pending sv ! i)] \<rparr>"
  by (simp add: server_step_def case_prod_beta)

lemma server_run_requests:
  "runs_in_flight (server_run sv (map UpdateRequest es)) = runs_in_flight sv + length es"
proof (induction es arbitrary: sv)
  case Nil
  show ?case by (simp add: server_run_def)
next
  case (Cons e es)
  have "server_run sv (map UpdateRequest (e # es)) =
          server_run (server_step sv (UpdateRequest e)) (map UpdateRequest es)"
    by (simp add: server_run_def)
  then show ?case
    by (simp add: Cons.IH) (simp add: runs_in_flight_def server_step_request)
qed




section \<open>The claims\<close>

subsection \<open>C2: a check while the probe fails\<close>

text \<open>
  C2, as amended. When the connectivity probe reports unavailable, neither a timer-driven
  check nor a manually triggered \<open>check\<close> command calls the release feed, and both leave
  the module state as it was: the \<open>check\<close> action runs the same \<open>checkForUpdates\<close>,
  which returns right after the failed probe.
\<close>

theorem offline_check_skips_feed:
  "\<not> hasInternet e \<Longrightarrow>
     Fetch GITHUB_API \<notin> set (fst (scheduled_tick e s)) \<and>
     Fetch GITHUB_API \<notin> set (fst (POST (BodyAction (JStr ''check'')) e s)) \<and>
     fst (snd (scheduled_tick e s)) = s \<and>
     fst (snd (POST (BodyAction (JStr ''check'')) e s)) = s"
  by (simp add: scheduled_tick_def POST_check checkForUpdates_offline no_feed_in_probe)

theorem offline_check_skips_feed_witness:
  "\<not> hasInternet offline_env \<and>
   Fetch GITHUB_API \<notin> set (fst (scheduled_tick offline_env (initial_state ''t''))) \<and>
   Fetch GITHUB_API \<notin> set (fst (POST (BodyAction (JStr ''check'')) offline_env (initial_state ''t'')))"
  using offline_check_skips_feed [of offline_env "initial_state ''t''"]
  by (simp add: hasInternet_def isInternetAvailable_def offline_env_def)

text \<open>
  C2 as stated fails in its second half: with the probe rejected, the manual \<open>check\<close>
  makes the probe call only, and no call to the release feed.
\<close>

theorem manual_check_offline_counterexample:
  "\<not> hasInternet offline_env \<and>
   fst (POST (BodyAction (JStr ''check'')) offline_env (initial_state ''t''))
     = [ConsoleLog ''[updater] Checking for updates...'', Fetch PROBE_URL,
        ConsoleLog ''[updater] Internet connectivity check failed:'',
        ConsoleLog ''[updater] No internet connection available, skipping update check''] \<and>
   feed_calls (fst (POST (BodyAction (JStr ''check'')) offline_env (initial_state ''t''))) = 0"
proof -
  have off: "\<not> hasInternet offline_env"
    by (simp add: hasInternet_def isInternetAvailable_def offline_env_def)
  have pr: "fst (isInternetAvailable offline_env) =
              [Fetch PROBE_URL, ConsoleLog ''[updater] Internet connectivity check failed:'']"
    by (simp add: isInternetAvailable_def offline_env_def)
  show ?thesis
    using off
    by (simp add: POST_check checkForUpdates_offline pr feed_calls_def urls_differ)
qed

subsection \<open>C3: comparison by inequality\<close>

text \<open>
  C3, as amended. For every local version string and every non-empty latest version
  string, a check that reaches the feed reports update-available exactly when the two
  strings differ, and up-to-date when they are equal; no ordering of versions is applied,
  so a lower remote version is reported as an update too.
\<close>

theorem check_compares_by_inequality:
  assumes "hasInternet e" and "feed e = Resolved r" and "ok r" and "body r = Data d"
    and "extractLatestVersion d = Inr (Some latest)" and "latest \<noteq> []"
    and "snd (getLocalVersion e) = JStr l"
  shows "updateAvailable (check_info e s) = (l \<noteq> latest) \<and>
         localVersion (check_info e s) = JStr l \<and>
         latestVersion (check_info e s) = Some latest"
  using assms by (simp add: checkForUpdates_fresh falsy_version_def)

theorem check_compares_by_inequality_witness:
  "hasInternet rollback_env \<and>
   snd (getLocalVersion rollback_env) = JStr ''2.0.0'' \<and>
   updateAvailable (check_info rollback_env (initial_state ''t'')) \<and>
   localVersion (check_info rollback_env (initial_state ''t'')) = JStr ''2.0.0'' \<and>
   latestVersion (check_info rollback_env (initial_state ''t'')) = Some ''1.0.0''"
proof -
  have f: "feed rollback_env = Resolved \<lparr> status = 200,
             body = Data \<lparr> name = JStr ''Rollback (v1.0.0)'', tag_name = JStr ''v1.0.0'',
                           assets = sample_assets \<rparr> \<rparr>"
    by (simp add: rollback_env_def sample_feed)
  have on: "hasInternet rollback_env"
    by (simp add: rollback_env_def sample_online)
  have l: "snd (getLocalVersion rollback_env) = JStr ''2.0.0''"
    by (simp add: rollback_env_def sample_pkg)
  show ?thesis
    using check_compares_by_inequality [OF on f ok_200 _ extract_rollback _ l, where s = "initial_state ''t''"] on l
    by simp
qed

text \<open>
  C3 as stated fails for the empty latest string: the tag \<open>v\<close> under a release name
  without a version gives the latest version \<open>""\<close>, which \<open>!latestVersion\<close> takes for
  missing. Local \<open>"1.0.0"\<close> and latest \<open>""\<close> are both non-null and differ, and the check
  reports no update.
\<close>

theorem empty_latest_counterexample:
  "localVersion (check_info empty_tag_env (initial_state ''t'')) = JStr ''1.0.0'' \<and>
   latestVersion (check_info empty_tag_env (initial_state ''t'')) = Some [] \<and>
   \<not> updateAvailable (check_info empty_tag_env (initial_state ''t''))"
  by (simp add: empty_tag_env_def check_info_sample [OF extract_Release_tag] sample_pkg
      strip_v_def falsy_version_def)

subsection \<open>C4: a release name without a version\<close>

text \<open>
  C4, as amended. For every remote release whose title contains no parseable version
  token and whose \<open>tag_name\<close> is absent or empty, the check completes without throwing
  and its result has \<open>updateAvailable: false\<close> and \<open>latestVersion: null\<close>.
\<close>

theorem no_version_no_update:
  assumes "hasInternet e" and "feed e = Resolved r" and "ok r" and "body r = Data d"
    and "name d = JStr title" and "name_match title = None" and "\<not> truthy (tag_name d)"
  shows "snd (snd (checkForUpdates e s)) = None \<and>
         \<not> updateAvailable (check_info e s) \<and>
         latestVersion (check_info e s) = None"
proof -
  have "extractLatestVersion d = Inr None"
    using assms(5-7) by (simp add: extractLatestVersion_def version_of_name_def falsy_version_def)
  then show ?thesis
    using assms(1-4) by (simp add: checkForUpdates_fresh checkForUpdates_no_exception falsy_version_def)
qed

theorem no_version_no_update_witness:
  "hasInternet no_version_env \<and> name_match ''Release'' = None \<and>
   snd (snd (checkForUpdates no_version_env (initial_state ''t''))) = None \<and>
   \<not> updateAvailable (check_info no_version_env (initial_state ''t'')) \<and>
   latestVersion (check_info no_version_env (initial_state ''t'')) = None"
proof -
  have f: "feed no_version_env = Resolved \<lparr> status = 200,
             body = Data \<lparr> name = JStr ''Release'', tag_name = JUndefined,
                           assets = sample_assets \<rparr> \<rparr>"
    by (simp add: no_version_env_def sample_feed)
  have on: "hasInternet no_version_env"
    by (simp add: no_version_env_def sample_online)
  show ?thesis
    using no_version_no_update [OF on f ok_200 _ _ name_match_Release, where s = "initial_state ''t''"] on
      name_match_Release
    by simp
qed

text \<open>
  C4 as stated fails when the release has a tag: the title \<open>Release\<close> has no version
  token, the check falls back to the tag \<open>v9.9.9\<close> and reports an update with
  \<open>latestVersion: "9.9.9"\<close>.
\<close>

theorem tag_fallback_counterexample:
  "name_match ''Release'' = None \<and>
   updateAvailable (check_info tag_only_env (initial_state ''t'')) \<and>
   latestVersion (check_info tag_only_env (initial_state ''t'')) = Some ''9.9.9''"
  by (simp add: name_match_Release tag_only_env_def check_info_sample [OF extract_Release_tag]
      sample_pkg strip_v_def falsy_version_def del: name_match.simps)

subsection \<open>C7: a failed feed call\<close>



subsection \<open>C10: an unknown local version\<close>

text \<open>
  C10. If the local version reads as \<open>null\<close> (\<open>package.json\<close> unreadable or without a
  version) while a latest version is extracted from the feed, the check reports
  \<open>updateAvailable: true\<close>: \<open>null !== latestVersion\<close> holds for every string.
\<close>

theorem null_local_reports_update:
  assumes "hasInternet e" and "feed e = Resolved r" and "ok r" and "body r = Data d"
    and "extractLatestVersion d = Inr (Some latest)" and "latest \<noteq> []"
    and "snd (getLocalVersion e) = JNull"
  shows "updateAvailable (check_info e s) \<and>
         localVersion (check_info e s) = JNull \<and>
         latestVersion (check_info e s) = Some latest"
  using assms by (simp add: checkForUpdates_fresh falsy_version_def)

theorem null_local_reports_update_witness:
  "hasInternet unreadable_pkg_env \<and> snd (getLocalVersion unreadable_pkg_env) = JNull \<and>
   updateAvailable (check_info unreadable_pkg_env (initial_state ''t'')) \<and>
   localVersion (check_info unreadable_pkg_env (initial_state ''t'')) = JNull \<and>
   latestVersion (check_info unreadable_pkg_env (initial_state ''t'')) = Some ''1.2.1''"
proof -
  have f: "feed unreadable_pkg_env = Resolved \<lparr> status = 200,
             body = Data \<lparr> name = JStr ''Release (v1.2.1)'', tag_name = JStr ''v1.2.1'',
                           assets = sample_assets \<rparr> \<rparr>"
    by (simp add: unreadable_pkg_env_def sample_feed)
  have on: "hasInternet unreadable_pkg_env"
    by (simp add: unreadable_pkg_env_def sample_online)
  have l: "snd (getLocalVersion unreadable_pkg_env) = JNull"
    by (simp add: unreadable_pkg_env_def getLocalVersion_def sample_env_def)
  show ?thesis
    using null_local_reports_update [OF on f ok_200 _ extract_scenario1 _ l, where s = "initial_state ''t''"] on l
    by simp
qed

subsection \<open>C1: update requests that overlap\<close>

text \<open>
  C1, as amended. An \<open>update\<close> command that arrives while an update procedure is in
  progress is not rejected. In every module state the handler \<open>POST\<close> runs
  \<open>performUpdate\<close> in full, leaves the module state as it was (nothing records that a run
  has begun) and answers 200 with the outcome of that run. So every \<open>update\<close> request
  starts a run of the update procedure at once (its log line and its call of the release
  feed), whatever is still pending, and requests that overlap put as many runs in flight.
\<close>

theorem update_request_not_guarded:
  "fst (POST (BodyAction (JStr ''update'')) e s) = fst (performUpdate e) \<and>
   take (length performUpdate_begin) (fst (POST (BodyAction (JStr ''update'')) e s))
     = performUpdate_begin \<and>
   fst (snd (POST (BodyAction (JStr ''update'')) e s)) = s \<and>
   http_status (snd (snd (POST (BodyAction (JStr ''update'')) e s))) = 200 \<and>
   updatePerformed (snd (snd (POST (BodyAction (JStr ''update'')) e s)))
     = Some (snd (performUpdate e)) \<and>
   runs_in_flight (server_step sv (UpdateRequest e)) = runs_in_flight sv + 1 \<and>
   console_and_io (server_step sv (UpdateRequest e)) = console_and_io sv @ performUpdate_begin \<and>
   module_state (server_step sv (UpdateRequest e)) = module_state sv \<and>
   replies (server_step sv (UpdateRequest e)) = replies sv \<and>
   runs_in_flight (server_run sv (map UpdateRequest es)) = runs_in_flight sv + length es"
proof (intro conjI)
  show "fst (POST (BodyAction (JStr ''update'')) e s) = fst (performUpdate e)"
    and "fst (snd (POST (BodyAction (JStr ''update'')) e s)) = s"
    and "http_status (snd (snd (POST (BodyAction (JStr ''update'')) e s))) = 200"
    and "updatePerformed (snd (snd (POST (BodyAction (JStr ''update'')) e s)))
           = Some (snd (performUpdate e))"
    by (simp_all add: POST_update envelope_def)
  show "take (length performUpdate_begin) (fst (POST (BodyAction (JStr ''update'')) e s))
          = performUpdate_begin"
    by (simp add: POST_update performUpdate_begin_take)
  show "runs_in_flight (server_step sv (UpdateRequest e)) = runs_in_flight sv + 1"
    and "console_and_io (server_step sv (UpdateRequest e)) = console_and_io sv @ performUpdate_begin"
    and "module_state (server_step sv (UpdateRequest e)) = module_state sv"
    and "replies (server_step sv (UpdateRequest e)) = replies sv"
    by (simp_all add: server_step_request runs_in_flight_def)
  show "runs_in_flight (server_run sv (map UpdateRequest es)) = runs_in_flight sv + length es"
    by (rule server_run_requests)
qed

theorem update_request_not_guarded_witness:
  "runs_in_flight (server_step (server_step (initial_server ''t'') (UpdateRequest scenario1_env))
                     (UpdateRequest no_zip_env)) = 2 \<and>
   fst (POST (BodyAction (JStr ''update'')) scenario1_env
          (fst (snd (POST (BodyAction (JStr ''update'')) scenario1_env (initial_state ''t'')))))
     = fst (performUpdate scenario1_env) \<and>
   runs_in_flight (server_run (initial_server ''t'')
                     (map UpdateRequest [scenario1_env, scenario1_env, no_zip_env])) = 3"
  using update_request_not_guarded
      [of scenario1_env "initial_state ''t''" "initial_server ''t''" "[scenario1_env, scenario1_env, no_zip_env]"]
    update_request_not_guarded
      [of no_zip_env "initial_state ''t''" "server_step (initial_server ''t'') (UpdateRequest scenario1_env)" "[]"]
    update_request_not_guarded
      [of scenario1_env "fst (snd (POST (BodyAction (JStr ''update'')) scenario1_env (initial_state ''t'')))"
        "initial_server ''t''" "[]"]
  by (simp add: initial_server_def runs_in_flight_def)

text \<open>
  C1 as stated fails: a second \<open>update\<close> request that arrives while the first run waits
  for the feed starts a second run at once (two start lines and two calls of the feed
  before any reply), and when both have finished each request is answered with the
  outcome of its own run, each run having scheduled the exit of the process.
\<close>

theorem second_update_starts_counterexample:
  "runs_in_flight (server_run (initial_server ''t'') [UpdateRequest scenario1_env]) = 1 \<and>
   runs_in_flight (server_run (initial_server ''t'')
                     [UpdateRequest scenario1_env, UpdateRequest scenario1_env]) = 2 \<and>
   console_and_io (server_run (initial_server ''t'')
                     [UpdateRequest scenario1_env, UpdateRequest scenario1_env])
     = performUpdate_begin @ performUpdate_begin \<and>
   replies (server_run (initial_server ''t'')
              [UpdateRequest scenario1_env, UpdateRequest scenario1_env]) = [] \<and>
   map updatePerformed
     (replies (server_run (initial_server ''t'')
                 [UpdateRequest scenario1_env, UpdateRequest scenario1_env,
                  RunCompletes 0, RunCompletes 0])) = [Some True, Some True] \<and>
   length (filter (\<lambda>x. x = SetTimeoutExit 2000)
     (console_and_io (server_run (initial_server ''t'')
                 [UpdateRequest scenario1_env, UpdateRequest scenario1_env,
                  RunCompletes 0, RunCompletes 0]))) = 2"
  by (simp add: server_run_def server_step_request server_step_completes runs_in_flight_def
      initial_server_def performUpdate_scenario1 performUpdate_begin_def)

subsection \<open>C5: the version of the release name, else of the tag\<close>

text \<open>
  C5, as amended. The latest version is group 1 of the leftmost match of
  \<^verbatim>\<open>/\(v?([0-9]+\.[0-9]+\.[0-9]+(?:\.[0-9]+)?)\)/\<close> in the release title: a token
  \<open>(vMAJOR.MINOR.PATCH[.BUILD])\<close> whose \<open>v\<close> is optional, given without the \<open>v\<close> and the
  parentheses. When the title has no such match, the check falls back to a non-empty
  \<open>tag_name\<close> with a leading \<open>v\<close> stripped. Local \<open>"1.2.0"\<close> with title
  \<open>"Release (v1.2.1)"\<close> yields \<open>updateAvailable: true\<close>, \<open>localVersion: "1.2.0"\<close>,
  \<open>latestVersion: "1.2.1"\<close>; local \<open>"1.2.0"\<close> with a title without a version and
  \<open>tag_name: "v1.2.0"\<close> yields \<open>updateAvailable: false\<close>.
\<close>

theorem version_from_name_else_tag:
  "(name d = JStr title \<and> name_match title = Some v \<longrightarrow>
      extractLatestVersion d = Inr (Some v)) \<and>
   (name d = JStr title \<and> name_match title = None \<and> tag_name d = JStr t \<and> t \<noteq> [] \<longrightarrow>
      extractLatestVersion d = Inr (Some (strip_v t))) \<and>
   (digit_run a \<and> digit_run b \<and> digit_run c \<and>
    (ext = [] \<or> (\<exists>x. digit_run x \<and> ext = ''.'' @ x)) \<and>
    (vopt = [] \<or> vopt = ''v'') \<and> CHR ''('' \<notin> set pre \<longrightarrow>
      name_match (pre @ ''('' @ vopt @ a @ ''.'' @ b @ ''.'' @ c @ ext @ '')'' @ post)
        = Some (a @ ''.'' @ b @ ''.'' @ c @ ext)) \<and>
   updateAvailable (check_info scenario1_env s) \<and>
   localVersion (check_info scenario1_env s) = JStr ''1.2.0'' \<and>
   latestVersion (check_info scenario1_env s) = Some ''1.2.1'' \<and>
   \<not> updateAvailable (check_info scenario2_env s)"
proof (intro conjI impI)
  assume "name d = JStr title \<and> name_match title = Some v"
  then show "extractLatestVersion d = Inr (Some v)"
    by (simp add: extract_from_name)
next
  assume "name d = JStr title \<and> name_match title = None \<and> tag_name d = JStr t \<and> t \<noteq> []"
  then show "extractLatestVersion d = Inr (Some (strip_v t))"
    by (simp add: extract_from_tag)
next
  assume h: "digit_run a \<and> digit_run b \<and> digit_run c \<and>
    (ext = [] \<or> (\<exists>x. digit_run x \<and> ext = ''.'' @ x)) \<and>
    (vopt = [] \<or> vopt = ''v'') \<and> CHR ''('' \<notin> set pre"
  then have "ext = [] \<or> (\<exists>x. digit_run x \<and> ext = CHR ''.'' # x)"
    by simp
  with h show "name_match (pre @ ''('' @ vopt @ a @ ''.'' @ b @ ''.'' @ c @ ext @ '')'' @ post)
        = Some (a @ ''.'' @ b @ ''.'' @ c @ ext)"
    using name_match_token [of a b c ext vopt pre post] by simp
next
  show "updateAvailable (check_info scenario1_env s)"
    and "localVersion (check_info scenario1_env s) = JStr ''1.2.0''"
    and "latestVersion (check_info scenario1_env s) = Some ''1.2.1''"
    by (simp_all add: scenario1_env_def check_info_sample [OF extract_scenario1] sample_pkg
        falsy_version_def)
  show "\<not> updateAvailable (check_info scenario2_env s)"
    by (simp add: scenario2_env_def check_info_sample [OF extract_scenario2] sample_pkg
        falsy_version_def)
qed

theorem version_from_name_else_tag_witness:
  "name_match ''Release (v1.2.1)'' = Some ''1.2.1'' \<and>
   extractLatestVersion \<lparr> name = JStr ''Release (v1.2.1)'', tag_name = JStr ''v9.9.9'',
                          assets = AssetsFalsy \<rparr> = Inr (Some ''1.2.1'') \<and>
   name_match ''Latest release'' = None \<and>
   extractLatestVersion \<lparr> name = JStr ''Latest release'', tag_name = JStr ''v1.2.0'',
                          assets = AssetsFalsy \<rparr> = Inr (Some ''1.2.0'') \<and>
   name_match ''Orbis Ship Latest (v0.0.9.17) stable'' = Some ''0.0.9.17''"
proof -
  have dr: "digit_run ''0''" "digit_run ''9''" "digit_run ''17''"
    by (simp_all add: digit_run_def is_digit_def)
  have np: "CHR ''('' \<notin> set ''Orbis Ship Latest ''"
    by simp
  show ?thesis
    using version_from_name_else_tag
      [of "\<lparr> name = JStr ''Release (v1.2.1)'', tag_name = JStr ''v9.9.9'', assets = AssetsFalsy \<rparr>"
        "''Release (v1.2.1)''" "''1.2.1''" "''v9.9.9''"
        "''0''" "''0''" "''9''" "''.17''" "''v''" "''Orbis Ship Latest ''" "'' stable''"]
      version_from_name_else_tag
      [of "\<lparr> name = JStr ''Latest release'', tag_name = JStr ''v1.2.0'', assets = AssetsFalsy \<rparr>"
        "''Latest release''" "''1.2.1''" "''v1.2.0''"
        "''0''" "''0''" "''9''" "[]" "''v''" "[]" "[]"]
      dr np name_match_scenario1 name_match_scenario2
    by (simp add: strip_v_def del: name_match.simps)
qed

text \<open>
  C5 as stated fails for a title whose token has no \<open>v\<close>: \<open>"Release (1.2.3)"\<close> does not
  match the pattern \<open>(vMAJOR.MINOR.PATCH[.BUILD])\<close> as the specification writes it, yet the
  check takes \<open>1.2.3\<close> from the title and does not fall back to the tag \<open>v9.9.9\<close>.
\<close>

theorem title_without_v_counterexample:
  "spec_name_match ''Release (v1.2.1)'' = Some ''1.2.1'' \<and>
   spec_name_match ''Release (1.2.3)'' = None \<and>
   feed no_v_env =
     Resolved \<lparr> status = 200,
                body = Data \<lparr> name = JStr ''Release (1.2.3)'', tag_name = JStr ''v9.9.9'',
                              assets = sample_assets \<rparr> \<rparr> \<and>
   latestVersion (check_info no_v_env (initial_state ''t'')) = Some ''1.2.3''"
  by (simp add: spec_name_match_scenario1 spec_name_match_no_v no_v_env_def sample_feed
      check_info_sample [OF extract_no_v] del: spec_name_match.simps)

subsection \<open>C6: the reply to \<open>update\<close>\<close>

text \<open>
  C6, as amended. The handler awaits the update procedure: the reply to \<open>update\<close> is not
  sent when the procedure is dispatched but when it has finished, after its last effect,
  and it carries the outcome: \<open>updatePerformed\<close> is the result of the procedure, and the
  message is \<open>Update initiated - application will restart\<close> for success and
  \<open>Update failed\<close> for failure.
\<close>

theorem update_reply_carries_outcome:
  "POST (BodyAction (JStr ''update'')) e s =
     (fst (performUpdate e), s,
      \<lparr> http_status = 200, success = True,
        message = Some (if snd (performUpdate e)
                        then ''Update initiated - application will restart''
                        else ''Update failed''),
        error = None, isRunning = None, updateInfo = None,
        updatePerformed = Some (snd (performUpdate e)) \<rparr>) \<and>
   replies (server_step sv (UpdateRequest e)) = replies sv \<and>
   snd (last (pending (server_step sv (UpdateRequest e))))
     = snd (snd (POST (BodyAction (JStr ''update'')) e (module_state sv))) \<and>
   (i < length (pending sv) \<longrightarrow>
      replies (server_step sv (RunCompletes i)) = replies sv @ [snd (pending sv ! i)] \<and>
      console_and_io (server_step sv (RunCompletes i)) = console_and_io sv @ fst (pending sv ! i))"
  by (simp add: server_step_request server_step_completes) (simp add: POST_update envelope_def)

theorem update_reply_carries_outcome_witness:
  "updatePerformed (snd (snd (POST (BodyAction (JStr ''update'')) scenario1_env (initial_state ''t''))))
     = Some True \<and>
   replies (server_step (initial_server ''t'') (UpdateRequest scenario1_env)) = [] \<and>
   replies (server_step (server_step (initial_server ''t'') (UpdateRequest scenario1_env))
              (RunCompletes 0))
     = [snd (snd (POST (BodyAction (JStr ''update'')) scenario1_env (initial_state ''t'')))]"
proof -
  let ?sv0 = "initial_server ''t''"
  let ?sv1 = "server_step ?sv0 (UpdateRequest scenario1_env)"
  note at0 = update_reply_carries_outcome [of scenario1_env "initial_state ''t''" ?sv0 0]
  note at1 = update_reply_carries_outcome [of scenario1_env "initial_state ''t''" ?sv1 0]
  have one: "length (pending ?sv1) = 1"
    by (simp add: server_step_request initial_server_def)
  have a: "updatePerformed (snd (snd (POST (BodyAction (JStr ''update'')) scenario1_env (initial_state ''t''))))
             = Some True"
    by (simp add: at0 [THEN conjunct1] performUpdate_scenario1)
  have b: "replies ?sv1 = []"
    using at0 [THEN conjunct2, THEN conjunct1] by (simp add: initial_server_def)
  have c: "snd (last (pending ?sv1))
             = snd (snd (POST (BodyAction (JStr ''update'')) scenario1_env (initial_state ''t'')))"
    using at0 [THEN conjunct2, THEN conjunct2, THEN conjunct1] by (simp add: initial_server_def)
  have "0 < length (pending ?sv1)"
    using one by simp
  with at1 have d: "replies (server_step ?sv1 (RunCompletes 0)) = replies ?sv1 @ [snd (pending ?sv1 ! 0)]"
    by blast
  have "pending ?sv1 ! 0 = last (pending ?sv1)"
    using one by (cases "pending ?sv1") simp_all
  with b c d show ?thesis
    using a by simp
qed

text \<open>
  C6 as stated fails: the reply to \<open>update\<close> differs with the outcome of the procedure,
  \<open>updatePerformed: true\<close> with \<open>Update initiated - application will restart\<close> against
  \<open>updatePerformed: false\<close> with \<open>Update failed\<close>.
\<close>

theorem update_reply_depends_on_outcome_counterexample:
  "updatePerformed (snd (snd (POST (BodyAction (JStr ''update'')) scenario1_env (initial_state ''t'')))) = Some True \<and>
   message (snd (snd (POST (BodyAction (JStr ''update'')) scenario1_env (initial_state ''t''))))
     = Some ''Update initiated - application will restart'' \<and>
   updatePerformed (snd (snd (POST (BodyAction (JStr ''update'')) no_zip_env (initial_state ''t'')))) = Some False \<and>
   message (snd (snd (POST (BodyAction (JStr ''update'')) no_zip_env (initial_state ''t'')))) = Some ''Update failed''"
  by (simp add: POST_update performUpdate_scenario1 performUpdate_no_zip)

subsection \<open>C8: running the update procedure again\<close>




subsection \<open>C9: the envelope of a failed update\<close>

text \<open>
  C9. When the update procedure fails, the reply to \<open>update\<close> is HTTP 200 with
  \<open>success: true\<close>, \<open>updatePerformed: false\<close> and the message \<open>Update failed\<close>, and no
  \<open>error\<close> field; a release without ZIP asset, a failed download, a failed extraction and
  a failed copy each make the procedure fail.
\<close>

theorem failed_update_answers_success:
  "(\<not> snd (performUpdate e) \<longrightarrow>
      snd (snd (POST (BodyAction (JStr ''update'')) e s)) =
        \<lparr> http_status = 200, success = True, message = Some ''Update failed'',
          error = None, isRunning = None, updateInfo = None, updatePerformed = Some False \<rparr>) \<and>
   (no_zip_asset e \<or> download_failed e \<or> \<not> expandOk e \<or> \<not> robocopyOk e \<longrightarrow>
      \<not> snd (performUpdate e))"
  using performUpdate_success [of e] by (auto simp: POST_update envelope_def)

theorem failed_update_answers_success_witness:
  "no_zip_asset no_zip_env \<and> \<not> snd (performUpdate no_zip_env) \<and>
   snd (snd (POST (BodyAction (JStr ''update'')) no_zip_env (initial_state ''t''))) =
     \<lparr> http_status = 200, success = True, message = Some ''Update failed'',
       error = None, isRunning = None, updateInfo = None, updatePerformed = Some False \<rparr>"
proof -
  have nz: "no_zip_asset no_zip_env"
    by (simp add: no_zip_asset_def no_zip_env_def)
  show ?thesis
    using failed_update_answers_success [of no_zip_env "initial_state ''t''"] nz
    by simp
qed

end
